theory Spec2Isabelle
  imports Complex_Main
begin

section \<open>Numbers of the program\<close>

text \<open>
  The program computes with Python floats. A float is a finite number, one of the two
  infinities, or the not-a-number marker \<^verbatim>\<open>np.nan\<close>. Finite results are the exact real
  results of the operations: binary64 rounding, overflow and the sign of zero are not
  represented. Integer operands (the module constants, integer arguments) take part in
  float arithmetic with the same exact values, and \<^verbatim>\<open>/\<close> is true division, so they are
  floats here as well.
\<close>

datatype pyfloat = Fin real | PInf | NInf | NaN

datatype py_error = ZeroDivisionError

fun is_neg :: "pyfloat \<Rightarrow> bool" where
  "is_neg (Fin a) = (a < 0)"
| "is_neg NInf = True"
| "is_neg PInf = False"
| "is_neg NaN = False"

fun fneg :: "pyfloat \<Rightarrow> pyfloat" where
  "fneg (Fin a) = Fin (- a)"
| "fneg PInf = NInf"
| "fneg NInf = PInf"
| "fneg NaN = NaN"

fun fadd :: "pyfloat \<Rightarrow> pyfloat \<Rightarrow> pyfloat" where
  "fadd (Fin a) (Fin b) = Fin (a + b)"
| "fadd NaN y = NaN"
| "fadd x NaN = NaN"
| "fadd PInf NInf = NaN"
| "fadd NInf PInf = NaN"
| "fadd PInf y = PInf"
| "fadd NInf y = NInf"
| "fadd (Fin a) y = y"

definition fsub :: "pyfloat \<Rightarrow> pyfloat \<Rightarrow> pyfloat" where
  "fsub x y = fadd x (fneg y)"

fun fmul :: "pyfloat \<Rightarrow> pyfloat \<Rightarrow> pyfloat" where
  "fmul (Fin a) (Fin b) = Fin (a * b)"
| "fmul NaN y = NaN"
| "fmul x NaN = NaN"
| "fmul x y =
     (if x = Fin 0 \<or> y = Fin 0 then NaN
      else if is_neg x = is_neg y then PInf else NInf)"

text \<open>
  Python's \<^verbatim>\<open>/\<close> on floats raises \<^verbatim>\<open>ZeroDivisionError\<close> whenever the divisor is zero,
  whatever the dividend is (also for \<^verbatim>\<open>0.0 / 0.0\<close> and \<^verbatim>\<open>nan / 0.0\<close>).
\<close>

fun fdiv :: "pyfloat \<Rightarrow> pyfloat \<Rightarrow> py_error + pyfloat" where
  "fdiv x (Fin b) =
     (if b = 0 then Inl ZeroDivisionError
      else Inr (case x of
                  Fin a \<Rightarrow> Fin (a / b)
                | NaN \<Rightarrow> NaN
                | _ \<Rightarrow> if is_neg x = (b < 0) then PInf else NInf))"
| "fdiv x NaN = Inr NaN"
| "fdiv (Fin a) y = Inr (Fin 0)"
| "fdiv NaN y = Inr NaN"
| "fdiv x y = Inr NaN"

text \<open>Comparisons: every comparison with \<^verbatim>\<open>nan\<close> is false.\<close>

fun flt :: "pyfloat \<Rightarrow> pyfloat \<Rightarrow> bool" where
  "flt (Fin a) (Fin b) = (a < b)"
| "flt NaN y = False"
| "flt x NaN = False"
| "flt x NInf = False"
| "flt PInf y = False"
| "flt x y = True"

definition fgt :: "pyfloat \<Rightarrow> pyfloat \<Rightarrow> bool" where
  "fgt x y = flt y x"

fun feq :: "pyfloat \<Rightarrow> pyfloat \<Rightarrow> bool" where
  "feq NaN y = False"
| "feq x NaN = False"
| "feq x y = (x = y)"

text \<open>
  NumPy's scalar functions used by the program. \<^verbatim>\<open>np.log10\<close> gives \<^verbatim>\<open>-inf\<close> at zero
  and \<^verbatim>\<open>nan\<close> below it (with a warning, not an exception); \<^verbatim>\<open>np.power(10, y)\<close> is
  the exponential to base ten.
\<close>

fun np_log10 :: "pyfloat \<Rightarrow> pyfloat" where
  "np_log10 (Fin a) = (if 0 < a then Fin (log 10 a) else if a = 0 then NInf else NaN)"
| "np_log10 PInf = PInf"
| "np_log10 NInf = NaN"
| "np_log10 NaN = NaN"

fun np_power10 :: "pyfloat \<Rightarrow> pyfloat" where
  "np_power10 (Fin y) = Fin (10 powr y)"
| "np_power10 PInf = PInf"
| "np_power10 NInf = Fin 0"
| "np_power10 NaN = NaN"

text \<open>
  \<^verbatim>\<open>DataFrame.round(3)\<close> rounds every cell as \<^verbatim>\<open>np.round\<close> does: scale by a thousand,
  round to the nearest integer with ties to even, scale back. Non-finite cells stay.
\<close>

definition rint :: "real \<Rightarrow> int" where
  "rint x =
     (let f = \<lfloor>x\<rfloor>; d = x - of_int f
      in if d < 1 / 2 then f
         else if 1 / 2 < d then f + 1
         else if even f then f else f + 1)"

fun round3 :: "pyfloat \<Rightarrow> pyfloat" where
  "round3 (Fin x) = Fin (of_int (rint (x * 1000)) / 1000)"
| "round3 PInf = PInf"
| "round3 NInf = NInf"
| "round3 NaN = NaN"

section \<open>Module constants\<close>

definition CO2_density :: pyfloat where "CO2_density = Fin 1964"
definition O2_density :: pyfloat where "O2_density = Fin 1430"
definition CO2_solubility :: pyfloat where "CO2_solubility = Fin 1449"
definition O2_solubility :: pyfloat where "O2_solubility = Fin 40"

text \<open>
  \<^verbatim>\<open>CO2_ratio = CO2_density / CO2_solubility\<close> and \<^verbatim>\<open>O2_ratio\<close> are computed once when
  the module is loaded; the divisors are non-zero constants.
\<close>

definition CO2_ratio :: pyfloat where "CO2_ratio = Fin (1964 / 1449)"
definition O2_ratio :: pyfloat where "O2_ratio = Fin (1430 / 40)"

definition CO2_MW :: pyfloat where "CO2_MW = Fin 44"
definition O2_MW :: pyfloat where "O2_MW = Fin 32"

section \<open>Utils\<close>

definition M_to_ppm :: "pyfloat \<Rightarrow> pyfloat \<Rightarrow> pyfloat" where
  "M_to_ppm M mw = fmul (fmul M mw) (Fin 1000)"

definition ppm_to_molar :: "pyfloat \<Rightarrow> pyfloat \<Rightarrow> py_error + pyfloat" where
  "ppm_to_molar ppm mw = (let mass = fmul ppm (Fin (1 / 1000)) in fdiv mass mw)"

definition KH_to_HCO3 :: "pyfloat \<Rightarrow> py_error + pyfloat" where
  "KH_to_HCO3 KH = (let ppm = fmul (Fin (218 / 10)) KH in ppm_to_molar ppm (Fin (610168 / 10000)))"

text \<open>
  In \<^verbatim>\<open>get_HCO3_from_alk\<close> the divisor \<^verbatim>\<open>1 + HCO3_CO3_ratio\<close> is a NumPy scalar, whose
  division does not raise; it is never zero (the ratio is a power of ten), so the
  division below never takes its error branch.
\<close>

definition get_HCO3_from_alk :: "pyfloat \<Rightarrow> pyfloat \<Rightarrow> pyfloat \<Rightarrow> py_error + pyfloat" where
  "get_HCO3_from_alk alk pH pK2 =
     (let pH_diff = fsub pK2 pH;
          HCO3_CO3_ratio = np_power10 pH_diff
      in fdiv (fmul alk HCO3_CO3_ratio) (fadd (Fin 1) HCO3_CO3_ratio))"

definition pH_to_CO2_with :: "pyfloat \<Rightarrow> pyfloat \<Rightarrow> pyfloat \<Rightarrow> pyfloat \<Rightarrow> py_error + pyfloat" where
  "pH_to_CO2_with pH KH pK1 pK2 =
     (case KH_to_HCO3 KH of
        Inl e \<Rightarrow> Inl e
      | Inr HCO3 \<Rightarrow>
          (case get_HCO3_from_alk HCO3 pH pK2 of
             Inl e \<Rightarrow> Inl e
           | Inr HCO3_corrected \<Rightarrow>
               (let log10_CO2 = fsub (fadd pK1 (np_log10 HCO3_corrected)) pH;
                    CO2 = np_power10 log10_CO2
                in Inr (fmul (fmul CO2 (Fin 44)) (Fin 1000)))))"

text \<open>
  \<^verbatim>\<open>CO2_to_pH\<close> divides \<^verbatim>\<open>HCO3 / CO2\<close> with Python's division when \<^verbatim>\<open>CO2\<close> is a
  Python float, as it is when the tank calls it; the correction by
  \<^verbatim>\<open>get_HCO3_from_alk\<close> is commented out in the source and is not applied.
\<close>

definition CO2_to_pH_with :: "pyfloat \<Rightarrow> pyfloat \<Rightarrow> pyfloat \<Rightarrow> pyfloat \<Rightarrow> py_error + pyfloat" where
  "CO2_to_pH_with CO2 KH pK1 pK2 =
     (case KH_to_HCO3 KH of
        Inl e \<Rightarrow> Inl e
      | Inr HCO3 \<Rightarrow>
          (case fdiv CO2 (fmul (Fin 44) (Fin 1000)) of
             Inl e \<Rightarrow> Inl e
           | Inr CO2' \<Rightarrow>
               (case fdiv HCO3 CO2' of
                  Inl e \<Rightarrow> Inl e
                | Inr q \<Rightarrow> Inr (fadd pK1 (np_log10 q)))))"

text \<open>The default arguments \<^verbatim>\<open>pK1=6.52, pK2=10.3\<close>.\<close>

definition pK1_default :: pyfloat where "pK1_default = Fin (652 / 100)"
definition pK2_default :: pyfloat where "pK2_default = Fin (103 / 10)"

definition pH_to_CO2 :: "pyfloat \<Rightarrow> pyfloat \<Rightarrow> py_error + pyfloat" where
  "pH_to_CO2 pH KH = pH_to_CO2_with pH KH pK1_default pK2_default"

definition CO2_to_pH :: "pyfloat \<Rightarrow> pyfloat \<Rightarrow> py_error + pyfloat" where
  "CO2_to_pH CO2 KH = CO2_to_pH_with CO2 KH pK1_default pK2_default"

section \<open>Tank\<close>

text \<open>
  The attributes of a \<^verbatim>\<open>Tank\<close> object. \<^verbatim>\<open>data\<close> is the data frame built by
  \<^verbatim>\<open>data_to_df\<close>: its three rows (headspace, water, total), each with the five columns
  CO2 (mg/l), CO2 (mg), O2 (mg/l), O2 (mg), pH.
\<close>

record Tank =
  volume :: pyfloat
  headspace :: pyfloat
  KH :: pyfloat
  CO2_mass_ratio :: pyfloat
  O2_mass_ratio :: pyfloat
  CO2_water_concentration :: pyfloat
  CO2_water_amount :: pyfloat
  CO2_headspace_amount :: pyfloat
  CO2_total_amount :: pyfloat
  CO2_total_concentration :: pyfloat
  CO2_headspace_concentration :: pyfloat
  O2_water_concentration :: pyfloat
  O2_water_amount :: pyfloat
  O2_headspace_amount :: pyfloat
  O2_total_amount :: pyfloat
  O2_total_concentration :: pyfloat
  O2_headspace_concentration :: pyfloat
  O2_amount_ratio :: pyfloat
  data :: "pyfloat list list"

text \<open>
  A method mutates the object and either returns or raises. When it raises, the
  assignments made before the failing statement stay in the object, so the outcome of a
  raise carries the state the object is left in.
\<close>

datatype outcome = Returns Tank | Raises py_error Tank

definition get_CO2_values_from_conc :: "Tank \<Rightarrow> outcome" where
  "get_CO2_values_from_conc t =
     (let t1 = t\<lparr>CO2_water_amount := fmul (CO2_water_concentration t) (volume t)\<rparr>;
          t2 = t1\<lparr>CO2_headspace_amount :=
                    fmul (fmul CO2_ratio (CO2_water_concentration t1)) (headspace t1)\<rparr>;
          t3 = t2\<lparr>CO2_total_amount := fadd (CO2_water_amount t2) (CO2_headspace_amount t2)\<rparr>
      in case fdiv (CO2_total_amount t3) (fadd (volume t3) (headspace t3)) of
           Inl e \<Rightarrow> Raises e t3
         | Inr c \<Rightarrow>
             (let t4 = t3\<lparr>CO2_total_concentration := c\<rparr>
              in if fgt (headspace t4) (Fin 0)
                 then (case fdiv (CO2_headspace_amount t4) (headspace t4) of
                         Inl e \<Rightarrow> Raises e t4
                       | Inr h \<Rightarrow> Returns (t4\<lparr>CO2_headspace_concentration := h\<rparr>))
                 else Returns (t4\<lparr>CO2_headspace_concentration := NaN\<rparr>)))"

definition get_O2_values_from_conc :: "Tank \<Rightarrow> outcome" where
  "get_O2_values_from_conc t =
     (let t1 = t\<lparr>O2_water_amount := fmul (O2_water_concentration t) (volume t)\<rparr>;
          t2 = t1\<lparr>O2_headspace_amount :=
                    fmul (fmul O2_ratio (O2_water_concentration t1)) (headspace t1)\<rparr>;
          t3 = t2\<lparr>O2_total_amount := fadd (O2_water_amount t2) (O2_headspace_amount t2)\<rparr>
      in case fdiv (O2_total_amount t3) (fadd (volume t3) (headspace t3)) of
           Inl e \<Rightarrow> Raises e t3
         | Inr c \<Rightarrow>
             (let t4 = t3\<lparr>O2_total_concentration := c\<rparr>
              in case (if fgt (headspace t4) (Fin 0)
                       then (case fdiv (O2_headspace_amount t4) (headspace t4) of
                               Inl e \<Rightarrow> Raises e t4
                             | Inr h \<Rightarrow> Returns (t4\<lparr>O2_headspace_concentration := h\<rparr>))
                       else Returns (t4\<lparr>O2_headspace_concentration := NaN\<rparr>)) of
                   Raises e t5 \<Rightarrow> Raises e t5
                 | Returns t5 \<Rightarrow>
                     (case fdiv (O2_headspace_amount t5) (O2_water_amount t5) of
                        Inl e \<Rightarrow> Raises e t5
                      | Inr r \<Rightarrow> Returns (t5\<lparr>O2_amount_ratio := r\<rparr>))))"

text \<open>
  \<^verbatim>\<open>data_to_df\<close> builds the three rows from the current attributes, the pH cell of the
  water row by \<^verbatim>\<open>Utils.CO2_to_pH\<close>, and stores the frame rounded to three decimals.
  \<^verbatim>\<open>table_of\<close> is the frame it stores, as a function of the attributes read.
\<close>

definition table_of :: "Tank \<Rightarrow> py_error + pyfloat list list" where
  "table_of t =
     (let headspace_row = [CO2_headspace_concentration t, CO2_headspace_amount t,
                           O2_headspace_concentration t, O2_headspace_amount t, NaN]
      in case CO2_to_pH (CO2_water_concentration t) (KH t) of
           Inl e \<Rightarrow> Inl e
         | Inr pH \<Rightarrow>
             (let water_row = [CO2_water_concentration t, CO2_water_amount t,
                               O2_water_concentration t, O2_water_amount t, pH];
                  total_row = [CO2_total_concentration t, CO2_total_amount t,
                               O2_total_concentration t, O2_total_amount t, NaN]
              in Inr (map (map round3) [headspace_row, water_row, total_row])))"

definition data_to_df :: "Tank \<Rightarrow> outcome" where
  "data_to_df t =
     (case table_of t of
        Inl e \<Rightarrow> Raises e t
      | Inr d \<Rightarrow> Returns (t\<lparr>data := d\<rparr>))"

text \<open>
  \<^verbatim>\<open>__repr__\<close> regenerates the frame and renders it. The rendering as text is not
  modelled: the result is the frame that is rendered, with the state the call leaves.
\<close>

definition Tank_repr :: "Tank \<Rightarrow> py_error + (pyfloat list list \<times> Tank)" where
  "Tank_repr t =
     (case data_to_df t of
        Raises e t' \<Rightarrow> Inl e
      | Returns t' \<Rightarrow> Inr (data t', t'))"

text \<open>
  \<^verbatim>\<open>__init__\<close> assigns the attributes in the order of the source. Attributes not yet
  assigned do not exist in Python; none is read before it is assigned, and the
  placeholder they hold here until then is never observed. When the constructor raises,
  no object is returned.
\<close>

definition unset :: Tank where
  "unset = \<lparr>volume = NaN, headspace = NaN, KH = NaN,
            CO2_mass_ratio = NaN, O2_mass_ratio = NaN,
            CO2_water_concentration = NaN, CO2_water_amount = NaN,
            CO2_headspace_amount = NaN, CO2_total_amount = NaN,
            CO2_total_concentration = NaN, CO2_headspace_concentration = NaN,
            O2_water_concentration = NaN, O2_water_amount = NaN,
            O2_headspace_amount = NaN, O2_total_amount = NaN,
            O2_total_concentration = NaN, O2_headspace_concentration = NaN,
            O2_amount_ratio = NaN, data = []\<rparr>"

definition Tank_init_with ::
  "pyfloat \<Rightarrow> pyfloat \<Rightarrow> pyfloat \<Rightarrow> pyfloat \<Rightarrow> pyfloat \<Rightarrow> py_error + Tank" where
  "Tank_init_with vol hs kh room_CO2_equilibrium room_O2_equilibrium =
     (let s = unset\<lparr>volume := vol, headspace := hs, KH := kh\<rparr>
      in case fdiv (fmul CO2_density (headspace s)) (fmul CO2_solubility (volume s)) of
           Inl e \<Rightarrow> Inl e
         | Inr cr \<Rightarrow>
             (case fdiv (fmul O2_density (headspace s)) (fmul O2_solubility (volume s)) of
                Inl e \<Rightarrow> Inl e
              | Inr orr \<Rightarrow>
                  (case get_CO2_values_from_conc
                          (s\<lparr>CO2_mass_ratio := cr, O2_mass_ratio := orr,
                             CO2_water_concentration := room_CO2_equilibrium\<rparr>) of
                     Raises e s1 \<Rightarrow> Inl e
                   | Returns s1 \<Rightarrow>
                       (case get_O2_values_from_conc
                               (s1\<lparr>O2_water_concentration := room_O2_equilibrium\<rparr>) of
                          Raises e s2 \<Rightarrow> Inl e
                        | Returns s2 \<Rightarrow>
                            (case data_to_df s2 of
                               Raises e s3 \<Rightarrow> Inl e
                             | Returns s3 \<Rightarrow> Inr s3)))))"

text \<open>The defaults \<^verbatim>\<open>KH=13, room_CO2_equilibrium=0.58, room_O2_equilibrium=8.24\<close>.\<close>

definition Tank_init :: "pyfloat \<Rightarrow> pyfloat \<Rightarrow> pyfloat \<Rightarrow> py_error + Tank" where
  "Tank_init vol hs kh = Tank_init_with vol hs kh (Fin (58 / 100)) (Fin (824 / 100))"

text \<open>
  \<^verbatim>\<open>use_O2\<close>: the tentative subtraction, the guard that adds the amount back, and
  otherwise the production of CO2, the redistribution and the two derivations.
\<close>

definition use_O2 :: "Tank \<Rightarrow> pyfloat \<Rightarrow> pyfloat \<Rightarrow> outcome" where
  "use_O2 t O2_used RQ =
     (let t1 = t\<lparr>O2_total_amount := fsub (O2_total_amount t) O2_used\<rparr>
      in if flt (O2_total_amount t1) (Fin 0)
         then Returns (t1\<lparr>O2_total_amount := fadd (O2_total_amount t1) O2_used\<rparr>)
         else
           (case fdiv (M_to_ppm RQ CO2_MW) (M_to_ppm (Fin 1) O2_MW) of
              Inl e \<Rightarrow> Raises e t1
            | Inr k \<Rightarrow>
                (let CO2_produced = fmul k O2_used;
                     t2 = t1\<lparr>CO2_total_amount := fadd (CO2_total_amount t1) CO2_produced\<rparr>
                 in case fdiv (O2_total_amount t2) (fadd (Fin 1) (O2_mass_ratio t2)) of
                      Inl e \<Rightarrow> Raises e t2
                    | Inr ow \<Rightarrow>
                        (let t3 = t2\<lparr>O2_water_amount := ow\<rparr>
                         in case fdiv (O2_water_amount t3) (volume t3) of
                              Inl e \<Rightarrow> Raises e t3
                            | Inr oc \<Rightarrow>
                                (case get_O2_values_from_conc
                                        (t3\<lparr>O2_water_concentration := oc\<rparr>) of
                                   Raises e t4 \<Rightarrow> Raises e t4
                                 | Returns t4 \<Rightarrow>
                                     (case fdiv (CO2_total_amount t4)
                                                (fadd (Fin 1) (CO2_mass_ratio t4)) of
                                        Inl e \<Rightarrow> Raises e t4
                                      | Inr cw \<Rightarrow>
                                          (let t5 = t4\<lparr>CO2_water_amount := cw\<rparr>
                                           in case fdiv (CO2_water_amount t5) (volume t5) of
                                                Inl e \<Rightarrow> Raises e t5
                                              | Inr cc \<Rightarrow>
                                                  get_CO2_values_from_conc
                                                    (t5\<lparr>CO2_water_concentration := cc\<rparr>))))))))"

section \<open>States of the model\<close>

text \<open>The state an outcome leaves the object in, whether the call returned or raised.\<close>

fun state_of :: "outcome \<Rightarrow> Tank" where
  "state_of (Returns t) = t"
| "state_of (Raises e t) = t"

text \<open>The tank of the stoichiometry scenario: \<^verbatim>\<open>Tank(volume=100, headspace=50, KH=4)\<close>.\<close>

definition scenario_tank :: Tank where
  "scenario_tank =
     (case Tank_init (Fin 100) (Fin 50) (Fin 4) of Inr t \<Rightarrow> t | Inl e \<Rightarrow> unset)"

section \<open>Evaluation and frame lemmas\<close>

lemmas const_defs = CO2_density_def O2_density_def CO2_solubility_def O2_solubility_def
  CO2_ratio_def O2_ratio_def CO2_MW_def O2_MW_def

lemmas eval_defs = Tank_init_def Tank_init_with_def get_CO2_values_from_conc_def
  get_O2_values_from_conc_def unset_def const_defs Let_def fgt_def fsub_def

lemmas table_defs = data_to_df_def table_of_def CO2_to_pH_def CO2_to_pH_with_def
  KH_to_HCO3_def ppm_to_molar_def pK1_default_def

lemma rint_numeral: "rint (numeral n) = numeral n"
  by (simp add: rint_def)

lemma log10_pos: "1 < x \<Longrightarrow> 0 < log 10 x"
  using zero_less_log_cancel_iff[of 10 x] by simp

lemma get_CO2_keeps:
  "volume (state_of (get_CO2_values_from_conc t)) = volume t \<and>
   headspace (state_of (get_CO2_values_from_conc t)) = headspace t \<and>
   KH (state_of (get_CO2_values_from_conc t)) = KH t \<and>
   CO2_mass_ratio (state_of (get_CO2_values_from_conc t)) = CO2_mass_ratio t \<and>
   O2_mass_ratio (state_of (get_CO2_values_from_conc t)) = O2_mass_ratio t \<and>
   data (state_of (get_CO2_values_from_conc t)) = data t"
  by (simp add: get_CO2_values_from_conc_def Let_def split: sum.splits)

lemma get_O2_keeps:
  "volume (state_of (get_O2_values_from_conc t)) = volume t \<and>
   headspace (state_of (get_O2_values_from_conc t)) = headspace t \<and>
   KH (state_of (get_O2_values_from_conc t)) = KH t \<and>
   CO2_mass_ratio (state_of (get_O2_values_from_conc t)) = CO2_mass_ratio t \<and>
   O2_mass_ratio (state_of (get_O2_values_from_conc t)) = O2_mass_ratio t \<and>
   data (state_of (get_O2_values_from_conc t)) = data t"
  by (simp add: get_O2_values_from_conc_def Let_def split: sum.splits)

lemma use_O2_keeps:
  "volume (state_of (use_O2 t u rq)) = volume t \<and>
   headspace (state_of (use_O2 t u rq)) = headspace t \<and>
   KH (state_of (use_O2 t u rq)) = KH t \<and>
   CO2_mass_ratio (state_of (use_O2 t u rq)) = CO2_mass_ratio t \<and>
   O2_mass_ratio (state_of (use_O2 t u rq)) = O2_mass_ratio t \<and>
   data (state_of (use_O2 t u rq)) = data t"
proof -
  have o: "\<And>s s'. get_O2_values_from_conc s = Returns s' \<or> get_O2_values_from_conc s = Raises e s' \<Longrightarrow>
    volume s' = volume s \<and> headspace s' = headspace s \<and> KH s' = KH s \<and>
    CO2_mass_ratio s' = CO2_mass_ratio s \<and> O2_mass_ratio s' = O2_mass_ratio s \<and> data s' = data s" for e
    using get_O2_keeps by (metis state_of.simps)
  have c: "\<And>s. volume (state_of (get_CO2_values_from_conc s)) = volume s \<and>
    headspace (state_of (get_CO2_values_from_conc s)) = headspace s \<and>
    KH (state_of (get_CO2_values_from_conc s)) = KH s \<and>
    CO2_mass_ratio (state_of (get_CO2_values_from_conc s)) = CO2_mass_ratio s \<and>
    O2_mass_ratio (state_of (get_CO2_values_from_conc s)) = O2_mass_ratio s \<and>
    data (state_of (get_CO2_values_from_conc s)) = data s"
    by (rule get_CO2_keeps)
  show ?thesis
    unfolding use_O2_def Let_def
    by (auto simp: c split: sum.splits outcome.splits dest!: o[OF disjI1] o[OF disjI2])
qed

lemma get_CO2_idem:
  assumes r: "get_CO2_values_from_conc t = Returns t'"
  shows "get_CO2_values_from_conc t' = Returns t'"
proof -
  let ?w = "fmul (CO2_water_concentration t) (volume t)"
  let ?h = "fmul (fmul CO2_ratio (CO2_water_concentration t)) (headspace t)"
  obtain c where c: "fdiv (fadd ?w ?h) (fadd (volume t) (headspace t)) = Inr c"
    using r by (cases "fdiv (fadd ?w ?h) (fadd (volume t) (headspace t))")
      (simp_all add: get_CO2_values_from_conc_def Let_def)
  show ?thesis
  proof (cases "fgt (headspace t) (Fin 0)")
    case True
    obtain hc where hc: "fdiv ?h (headspace t) = Inr hc"
      using r c True by (cases "fdiv ?h (headspace t)")
        (simp_all add: get_CO2_values_from_conc_def Let_def)
    have "t' = t\<lparr>CO2_water_amount := ?w, CO2_headspace_amount := ?h,
                  CO2_total_amount := fadd ?w ?h, CO2_total_concentration := c,
                  CO2_headspace_concentration := hc\<rparr>"
      using r by (simp add: get_CO2_values_from_conc_def Let_def c True hc)
    then show ?thesis
      by (simp add: get_CO2_values_from_conc_def Let_def c True hc)
  next
    case False
    have "t' = t\<lparr>CO2_water_amount := ?w, CO2_headspace_amount := ?h,
                  CO2_total_amount := fadd ?w ?h, CO2_total_concentration := c,
                  CO2_headspace_concentration := NaN\<rparr>"
      using r by (simp add: get_CO2_values_from_conc_def Let_def c False)
    then show ?thesis
      by (simp add: get_CO2_values_from_conc_def Let_def c False)
  qed
qed

lemma get_O2_idem:
  assumes r: "get_O2_values_from_conc t = Returns t'"
  shows "get_O2_values_from_conc t' = Returns t'"
proof -
  let ?w = "fmul (O2_water_concentration t) (volume t)"
  let ?h = "fmul (fmul O2_ratio (O2_water_concentration t)) (headspace t)"
  obtain c where c: "fdiv (fadd ?w ?h) (fadd (volume t) (headspace t)) = Inr c"
    using r by (cases "fdiv (fadd ?w ?h) (fadd (volume t) (headspace t))")
      (simp_all add: get_O2_values_from_conc_def Let_def)
  show ?thesis
  proof (cases "fgt (headspace t) (Fin 0)")
    case True
    obtain hc where hc: "fdiv ?h (headspace t) = Inr hc"
      using r c True by (cases "fdiv ?h (headspace t)")
        (simp_all add: get_O2_values_from_conc_def Let_def)
    obtain q where q: "fdiv ?h ?w = Inr q"
      using r c True hc by (cases "fdiv ?h ?w")
        (simp_all add: get_O2_values_from_conc_def Let_def)
    have "t' = t\<lparr>O2_water_amount := ?w, O2_headspace_amount := ?h,
                  O2_total_amount := fadd ?w ?h, O2_total_concentration := c,
                  O2_headspace_concentration := hc, O2_amount_ratio := q\<rparr>"
      using r by (simp add: get_O2_values_from_conc_def Let_def c True hc q)
    then show ?thesis
      by (simp add: get_O2_values_from_conc_def Let_def c True hc q)
  next
    case False
    obtain q where q: "fdiv ?h ?w = Inr q"
      using r c False by (cases "fdiv ?h ?w")
        (simp_all add: get_O2_values_from_conc_def Let_def)
    have "t' = t\<lparr>O2_water_amount := ?w, O2_headspace_amount := ?h,
                  O2_total_amount := fadd ?w ?h, O2_total_concentration := c,
                  O2_headspace_concentration := NaN, O2_amount_ratio := q\<rparr>"
      using r by (simp add: get_O2_values_from_conc_def Let_def c False q)
    then show ?thesis
      by (simp add: get_O2_values_from_conc_def Let_def c False q)
  qed
qed

lemma scenario_tank_init: "Tank_init (Fin 100) (Fin 50) (Fin 4) = Inr scenario_tank"
  unfolding scenario_tank_def
  by (simp add: eval_defs table_defs)

lemma scenario_tank_fields:
  "volume scenario_tank = Fin 100"
  "headspace scenario_tank = Fin 50"
  "KH scenario_tank = Fin 4"
  "CO2_mass_ratio scenario_tank = Fin (982 / 1449)"
  "O2_mass_ratio scenario_tank = Fin (143 / 8)"
  "CO2_water_concentration scenario_tank = Fin (29 / 50)"
  "CO2_water_amount scenario_tank = Fin 58"
  "CO2_headspace_amount scenario_tank = Fin (56956 / 1449)"
  "CO2_total_amount scenario_tank = Fin (140998 / 1449)"
  "CO2_total_concentration scenario_tank = Fin (70499 / 108675)"
  "CO2_headspace_concentration scenario_tank = Fin (28478 / 36225)"
  "O2_water_concentration scenario_tank = Fin (206 / 25)"
  "O2_water_amount scenario_tank = Fin 824"
  "O2_headspace_amount scenario_tank = Fin 14729"
  "O2_total_amount scenario_tank = Fin 15553"
  "O2_total_concentration scenario_tank = Fin (15553 / 150)"
  "O2_headspace_concentration scenario_tank = Fin (14729 / 50)"
  "O2_amount_ratio scenario_tank = Fin (143 / 8)"
  unfolding scenario_tank_def
  by (simp_all add: eval_defs table_defs)


lemma scenario_use_10:
  "use_O2 scenario_tank (Fin 10) (Fin 1) = Returns
      (scenario_tank
       \<lparr>O2_water_concentration := Fin (31086 / 3775),
          O2_water_amount := Fin (124344 / 151),
          O2_headspace_amount := Fin (2222649 / 151),
          O2_total_amount := Fin 15543,
          O2_total_concentration := Fin (5181 / 50),
          O2_headspace_concentration := Fin (2222649 / 7550),
          O2_amount_ratio := Fin (143 / 8),
          CO2_water_concentration := Fin (58517 / 88400),
          CO2_water_amount := Fin (58517 / 884),
          CO2_headspace_amount := Fin (28731847 / 640458),
          CO2_total_amount := Fin (643687 / 5796),
          CO2_total_concentration := Fin (643687 / 869400),
          CO2_headspace_concentration := Fin (28731847 / 32022900)\<rparr>)"
  by (simp add: use_O2_def M_to_ppm_def eval_defs scenario_tank_fields)

lemma table_of_data [simp]: "table_of (t\<lparr>data := d\<rparr>) = table_of t"
  by (simp add: table_of_def Let_def split: sum.splits)

lemma table_of_O2_total_cell:
  "table_of t = Inr d \<Longrightarrow> d ! 2 ! 3 = round3 (O2_total_amount t)"
  by (auto simp: table_of_def Let_def split: sum.splits)

lemma init_snapshot_fresh:
  assumes "Tank_init_with vol hs kh c ox = Inr t"
  shows "table_of t = Inr (data t)"
proof -
  from assms obtain s2 where "data_to_df s2 = Returns t"
    by (auto simp: Tank_init_with_def Let_def split: sum.splits outcome.splits)
  then show ?thesis
    by (auto simp: data_to_df_def split: sum.splits)
qed



section \<open>Stoichiometry scenario\<close>

text \<open>
  C1. For the tank built by \<^verbatim>\<open>Tank(volume=100, headspace=50, KH=4)\<close>, the call
  \<^verbatim>\<open>use_O2(10, RQ=1)\<close> returns, \<^verbatim>\<open>O2_total_amount\<close> is lower by exactly 10 and
  \<^verbatim>\<open>CO2_total_amount\<close> is higher by exactly 13.75 afterwards, and 13.75 is
  \<^verbatim>\<open>(M_to_ppm(RQ, CO2_MW) / M_to_ppm(1, O2_MW)) * O2_used\<close>, that is 10 * (44 / 32).
\<close>

theorem stoichiometry_scenario:
  "\<exists>t0 t1 k. Tank_init (Fin 100) (Fin 50) (Fin 4) = Inr t0 \<and>
     use_O2 t0 (Fin 10) (Fin 1) = Returns t1 \<and>
     fsub (O2_total_amount t0) (O2_total_amount t1) = Fin 10 \<and>
     fsub (CO2_total_amount t1) (CO2_total_amount t0) = Fin (1375 / 100) \<and>
     fdiv (M_to_ppm (Fin 1) CO2_MW) (M_to_ppm (Fin 1) O2_MW) = Inr k \<and>
     fmul k (Fin 10) = Fin (10 * (44 / 32))"
  using scenario_tank_init scenario_use_10
  by (simp add: scenario_tank_fields fsub_def M_to_ppm_def const_defs)

section \<open>The guard of the consumption\<close>

text \<open>
  C2. A call of \<^verbatim>\<open>use_O2\<close> with more O2 than the tank holds is meant to change nothing.
  The source undoes the tentative subtraction by adding the amount back, and float
  addition does not undo float subtraction: for the scenario tank and
  \<^verbatim>\<open>O2_used = float('inf')\<close> the amount is greater than the total, the call returns, and
  \<^verbatim>\<open>O2_total_amount\<close> is left as \<^verbatim>\<open>nan\<close> (\<^verbatim>\<open>-inf + inf\<close>) instead of its value before
  the call. For finite amounts the loss is in the binary64 rounding of \<^verbatim>\<open>(a - b) + b\<close>,
  which the exact arithmetic of this model does not represent.
\<close>

theorem use_O2_rollback_loses_total:
  "fgt PInf (O2_total_amount scenario_tank) \<and>
   use_O2 scenario_tank PInf (Fin 1) = Returns (scenario_tank\<lparr>O2_total_amount := NaN\<rparr>) \<and>
   O2_total_amount (state_of (use_O2 scenario_tank PInf (Fin 1))) \<noteq> O2_total_amount scenario_tank"
  by (simp add: use_O2_def fsub_def fgt_def Let_def scenario_tank_fields)

text \<open>
  C10. The guard is strict: a call that uses exactly the O2 the tank holds is not
  rejected. For the scenario tank the call sets the water, headspace and total amounts
  of O2 to zero and then raises \<^verbatim>\<open>ZeroDivisionError\<close> at
  \<^verbatim>\<open>O2_amount_ratio = O2_headspace_amount / O2_water_amount\<close>, which is \<^verbatim>\<open>0.0 / 0.0\<close> on
  Python floats: \<^verbatim>\<open>O2_amount_ratio\<close> keeps its old value (it is not \<^verbatim>\<open>nan\<close>),
  \<^verbatim>\<open>CO2_total_amount\<close> has been increased already, and the CO2 fields are not derived again.
\<close>

theorem use_O2_exact_depletion_raises:
  "use_O2 scenario_tank (O2_total_amount scenario_tank) (Fin 1) =
     Raises ZeroDivisionError
      (scenario_tank
       \<lparr>CO2_total_amount := Fin (249027251 / 11592),
          O2_water_concentration := Fin 0, O2_water_amount := Fin 0,
          O2_headspace_amount := Fin 0, O2_total_amount := Fin 0,
          O2_total_concentration := Fin 0,
          O2_headspace_concentration := Fin 0\<rparr>) \<and>
   O2_amount_ratio (state_of (use_O2 scenario_tank (O2_total_amount scenario_tank) (Fin 1))) =
     Fin (143 / 8) \<and>
   fdiv (Fin 0) (Fin 0) = Inl ZeroDivisionError"
  by (simp add: use_O2_def M_to_ppm_def eval_defs scenario_tank_fields)

section \<open>Conservation\<close>

text \<open>
  C3. \<^verbatim>\<open>total_amount == water_amount + headspace_amount\<close> holds for both gases in the
  state the constructor builds, and each derivation assigns the total as that sum. Two
  calls of \<^verbatim>\<open>use_O2\<close> on the scenario tank leave a state where it fails. The rejected
  call \<^verbatim>\<open>use_O2(float('inf'))\<close> returns with \<^verbatim>\<open>O2_total_amount\<close> turned into \<^verbatim>\<open>nan\<close> by
  the rollback, next to a water and a headspace amount that still add up to 15553. The
  call \<^verbatim>\<open>use_O2(15553)\<close> raises after \<^verbatim>\<open>CO2_total_amount\<close> has been increased and before
  the CO2 fields are derived again: the total is 249027251 / 11592 (about 21482.68),
  the water and headspace amounts still add up to 140998 / 1449 (about 97.31).
\<close>

theorem conservation_lost_by_use_O2:
  "feq (CO2_total_amount scenario_tank)
       (fadd (CO2_water_amount scenario_tank) (CO2_headspace_amount scenario_tank)) \<and>
   feq (O2_total_amount scenario_tank)
       (fadd (O2_water_amount scenario_tank) (O2_headspace_amount scenario_tank)) \<and>
   use_O2 scenario_tank PInf (Fin 1) = Returns (state_of (use_O2 scenario_tank PInf (Fin 1))) \<and>
   O2_total_amount (state_of (use_O2 scenario_tank PInf (Fin 1))) = NaN \<and>
   fadd (O2_water_amount (state_of (use_O2 scenario_tank PInf (Fin 1))))
        (O2_headspace_amount (state_of (use_O2 scenario_tank PInf (Fin 1)))) = Fin 15553 \<and>
   \<not> feq (O2_total_amount (state_of (use_O2 scenario_tank PInf (Fin 1))))
       (fadd (O2_water_amount (state_of (use_O2 scenario_tank PInf (Fin 1))))
             (O2_headspace_amount (state_of (use_O2 scenario_tank PInf (Fin 1))))) \<and>
   use_O2 scenario_tank (Fin 15553) (Fin 1) =
     Raises ZeroDivisionError (state_of (use_O2 scenario_tank (Fin 15553) (Fin 1))) \<and>
   CO2_total_amount (state_of (use_O2 scenario_tank (Fin 15553) (Fin 1))) =
     Fin (249027251 / 11592) \<and>
   fadd (CO2_water_amount (state_of (use_O2 scenario_tank (Fin 15553) (Fin 1))))
        (CO2_headspace_amount (state_of (use_O2 scenario_tank (Fin 15553) (Fin 1)))) =
     Fin (140998 / 1449) \<and>
   \<not> feq (CO2_total_amount (state_of (use_O2 scenario_tank (Fin 15553) (Fin 1))))
       (fadd (CO2_water_amount (state_of (use_O2 scenario_tank (Fin 15553) (Fin 1))))
             (CO2_headspace_amount (state_of (use_O2 scenario_tank (Fin 15553) (Fin 1)))))"
proof -
  have a: "use_O2 scenario_tank PInf (Fin 1) = Returns (scenario_tank\<lparr>O2_total_amount := NaN\<rparr>)"
    by (simp add: use_O2_def fsub_def Let_def scenario_tank_fields)
  have b: "use_O2 scenario_tank (Fin 15553) (Fin 1) =
     Raises ZeroDivisionError
      (scenario_tank
       \<lparr>CO2_total_amount := Fin (249027251 / 11592),
          O2_water_concentration := Fin 0, O2_water_amount := Fin 0,
          O2_headspace_amount := Fin 0, O2_total_amount := Fin 0,
          O2_total_concentration := Fin 0,
          O2_headspace_concentration := Fin 0\<rparr>)"
    by (simp add: use_O2_def M_to_ppm_def eval_defs scenario_tank_fields)
  show ?thesis
    unfolding a b by (simp add: scenario_tank_fields)
qed

section \<open>The reporting snapshot\<close>

text \<open>
  C5, as the source has it. \<^verbatim>\<open>data_to_df\<close> computes the snapshot from the current
  attributes only, never from the snapshot stored before, and \<^verbatim>\<open>__repr__\<close> runs it and
  renders the snapshot it has just stored. \<^verbatim>\<open>use_O2\<close> does not run it: whether the call
  returns or raises, the stored \<^verbatim>\<open>data\<close> is the one stored before the call, until the
  next \<^verbatim>\<open>data_to_df\<close> or \<^verbatim>\<open>__repr__\<close>.
\<close>

theorem snapshot_regenerated_on_demand:
  "data (state_of (use_O2 t u rq)) = data t \<and>
   table_of (t\<lparr>data := d\<rparr>) = table_of t \<and>
   data_to_df t = (case table_of t of Inl e \<Rightarrow> Raises e t | Inr d' \<Rightarrow> Returns (t\<lparr>data := d'\<rparr>)) \<and>
   Tank_repr t = (case table_of t of Inl e \<Rightarrow> Inl e | Inr d' \<Rightarrow> Inr (d', t\<lparr>data := d'\<rparr>))"
  using use_O2_keeps[of t u rq]
  by (simp add: table_of_def Tank_repr_def data_to_df_def split: sum.splits)

text \<open>
  C5 as stated fails: after \<^verbatim>\<open>use_O2(10, RQ=1)\<close> on the scenario tank the stored
  \<^verbatim>\<open>data\<close> is still the snapshot of the constructor (15553 mg of O2 in total), not the
  snapshot of the state after the call (15543 mg).
\<close>

theorem snapshot_stale_after_use_O2:
  "data (state_of (use_O2 scenario_tank (Fin 10) (Fin 1))) = data scenario_tank \<and>
   table_of (state_of (use_O2 scenario_tank (Fin 10) (Fin 1))) \<noteq>
     Inr (data (state_of (use_O2 scenario_tank (Fin 10) (Fin 1))))"
proof -
  let ?t1 = "state_of (use_O2 scenario_tank (Fin 10) (Fin 1))"
  have kept: "data ?t1 = data scenario_tank"
    using use_O2_keeps[of scenario_tank "Fin 10" "Fin 1"] by simp
  have "table_of scenario_tank = Inr (data scenario_tank)"
    using scenario_tank_init unfolding Tank_init_def by (rule init_snapshot_fresh)
  then have "data scenario_tank ! 2 ! 3 = round3 (O2_total_amount scenario_tank)"
    by (rule table_of_O2_total_cell)
  then have old: "data scenario_tank ! 2 ! 3 = Fin 15553"
    by (simp add: scenario_tank_fields(15) rint_numeral)
  have t1: "O2_total_amount ?t1 = Fin 15543"
    by (simp add: scenario_use_10)
  show ?thesis
  proof (intro conjI notI)
    show "data ?t1 = data scenario_tank" by (rule kept)
  next
    assume "table_of ?t1 = Inr (data ?t1)"
    then have "data ?t1 ! 2 ! 3 = round3 (O2_total_amount ?t1)"
      by (rule table_of_O2_total_cell)
    then have "data scenario_tank ! 2 ! 3 = Fin 15543"
      unfolding kept t1 by (simp add: rint_numeral)
    with old show False by simp
  qed
qed

section \<open>The derivation\<close>

text \<open>
  C8. A derivation that returns has reached a fixed point: calling
  \<^verbatim>\<open>get_CO2_values_from_conc\<close> (or \<^verbatim>\<open>get_O2_values_from_conc\<close>) again on the state it
  left returns the same state, every field with the same value.
\<close>

theorem derivation_idempotent:
  "(get_CO2_values_from_conc t = Returns t' \<longrightarrow> get_CO2_values_from_conc t' = Returns t') \<and>
   (get_O2_values_from_conc t = Returns t'' \<longrightarrow> get_O2_values_from_conc t'' = Returns t'')"
  using get_CO2_idem get_O2_idem by blast

theorem derivation_idempotent_witness:
  "get_CO2_values_from_conc
     (scenario_tank\<lparr>CO2_water_concentration := Fin 1, O2_water_concentration := Fin 5\<rparr>) =
   Returns (state_of (get_CO2_values_from_conc
     (scenario_tank\<lparr>CO2_water_concentration := Fin 1, O2_water_concentration := Fin 5\<rparr>))) \<and>
   get_CO2_values_from_conc (state_of (get_CO2_values_from_conc
     (scenario_tank\<lparr>CO2_water_concentration := Fin 1, O2_water_concentration := Fin 5\<rparr>))) =
   Returns (state_of (get_CO2_values_from_conc
     (scenario_tank\<lparr>CO2_water_concentration := Fin 1, O2_water_concentration := Fin 5\<rparr>))) \<and>
   get_O2_values_from_conc
     (scenario_tank\<lparr>CO2_water_concentration := Fin 1, O2_water_concentration := Fin 5\<rparr>) =
   Returns (state_of (get_O2_values_from_conc
     (scenario_tank\<lparr>CO2_water_concentration := Fin 1, O2_water_concentration := Fin 5\<rparr>))) \<and>
   get_O2_values_from_conc (state_of (get_O2_values_from_conc
     (scenario_tank\<lparr>CO2_water_concentration := Fin 1, O2_water_concentration := Fin 5\<rparr>))) =
   Returns (state_of (get_O2_values_from_conc
     (scenario_tank\<lparr>CO2_water_concentration := Fin 1, O2_water_concentration := Fin 5\<rparr>)))"
proof -
  let ?t = "scenario_tank\<lparr>CO2_water_concentration := Fin 1, O2_water_concentration := Fin 5\<rparr>"
  have a: "get_CO2_values_from_conc ?t = Returns (state_of (get_CO2_values_from_conc ?t))"
    by (simp add: get_CO2_values_from_conc_def Let_def scenario_tank_fields CO2_ratio_def fgt_def)
  have b: "get_O2_values_from_conc ?t = Returns (state_of (get_O2_values_from_conc ?t))"
    by (simp add: get_O2_values_from_conc_def Let_def scenario_tank_fields O2_ratio_def fgt_def)
  from derivation_idempotent[of ?t "state_of (get_CO2_values_from_conc ?t)"
      "state_of (get_O2_values_from_conc ?t)"] a b
  show ?thesis by blast
qed

text \<open>
  C7. A tank built with \<^verbatim>\<open>headspace = 0\<close> (finite arguments, a non-zero volume and
  non-zero concentrations, so that no division of the constructor fails) is built without
  an error; the headspace concentration of each gas is \<^verbatim>\<open>nan\<close> and the headspace amount
  of each gas is exactly 0.
\<close>

theorem zero_headspace:
  assumes "v \<noteq> 0" "c \<noteq> 0" "ox \<noteq> 0"
  shows "\<exists>t. Tank_init_with (Fin v) (Fin 0) (Fin k) (Fin c) (Fin ox) = Inr t \<and>
     CO2_headspace_concentration t = NaN \<and> O2_headspace_concentration t = NaN \<and>
     CO2_headspace_amount t = Fin 0 \<and> O2_headspace_amount t = Fin 0"
  using assms
  by (simp add: eval_defs table_defs)

theorem zero_headspace_witness:
  "\<exists>t. Tank_init_with (Fin 100) (Fin 0) (Fin 13) (Fin (58 / 100)) (Fin (824 / 100)) = Inr t \<and>
     CO2_headspace_concentration t = NaN \<and> O2_headspace_concentration t = NaN \<and>
     CO2_headspace_amount t = Fin 0 \<and> O2_headspace_amount t = Fin 0"
  using zero_headspace[of 100 "58 / 100" "824 / 100" 13] by simp

section \<open>Utils\<close>

text \<open>
  C9. \<^verbatim>\<open>ppm_to_molar(61.0168, 61.0168)\<close> returns exactly \<^verbatim>\<open>1e-3\<close>: the mass is
  \<^verbatim>\<open>ppm * 1e-3\<close> and the result \<^verbatim>\<open>mass / mw\<close>.
\<close>

theorem ppm_to_molar_units:
  "ppm_to_molar (Fin (610168 / 10000)) (Fin (610168 / 10000)) = Inr (Fin (1 / 1000))"
  by (simp add: ppm_to_molar_def)

text \<open>
  C6. For every pH and every positive hardness, \<^verbatim>\<open>pH_to_CO2\<close> returns a finite amount of
  CO2 and \<^verbatim>\<open>CO2_to_pH\<close> of that amount is not the pH the round trip started from: it is
  higher by \<open>log\<^sub>1\<^sub>0 (1 + 10\<^sup>p\<^sup>H\<^sup>-\<^sup>p\<^sup>K\<^sup>2)\<close>, the logarithm of the correction factor
  that \<^verbatim>\<open>pH_to_CO2\<close> applies through \<^verbatim>\<open>get_HCO3_from_alk\<close> and \<^verbatim>\<open>CO2_to_pH\<close> does not.
\<close>

theorem pH_round_trip_not_exact:
  assumes "0 < kh"
  shows "\<exists>co2 ph2. pH_to_CO2 (Fin ph) (Fin kh) = Inr (Fin co2) \<and>
           CO2_to_pH (Fin co2) (Fin kh) = Inr (Fin ph2) \<and>
           ph2 = ph + log 10 (1 + 10 powr (ph - 103 / 10)) \<and> ph < ph2"
proof -
  define A where "A = 218 / 10 * kh * (1 / 1000) / (610168 / 10000)"
  define r where "r = (10::real) powr (103 / 10 - ph)"
  define Hc where "Hc = A * r / (1 + r)"
  define C where "C = (10::real) powr (652 / 100 + log 10 Hc - ph)"
  have A: "0 < A" using assms by (simp add: A_def)
  have r: "0 < r" by (simp add: r_def)
  have Hc: "0 < Hc" using A r by (simp add: Hc_def)
  have C: "0 < C" by (simp add: C_def)
  have kh: "KH_to_HCO3 (Fin kh) = Inr (Fin A)"
    by (simp add: KH_to_HCO3_def ppm_to_molar_def A_def)
  have r1: "1 + r \<noteq> 0" using r by linarith
  have alk: "get_HCO3_from_alk (Fin A) (Fin ph) pK2_default = Inr (Fin Hc)"
    using r1 by (simp add: get_HCO3_from_alk_def pK2_default_def fsub_def Hc_def r_def Let_def)
  have fwd: "pH_to_CO2 (Fin ph) (Fin kh) = Inr (Fin (C * 44 * 1000))"
    using Hc by (simp add: pH_to_CO2_def pH_to_CO2_with_def kh alk pK1_default_def fsub_def C_def Let_def)
  have q: "0 < A / C" using A C by simp
  have inverse_dir: "CO2_to_pH (Fin (C * 44 * 1000)) (Fin kh) = Inr (Fin (652 / 100 + log 10 (A / C)))"
    using C q by (simp add: CO2_to_pH_def CO2_to_pH_with_def kh pK1_default_def)
  have "log 10 (A / C) = log 10 A - log 10 C"
    using A C by (simp add: log_divide)
  also have "log 10 C = 652 / 100 + log 10 Hc - ph"
    by (simp add: C_def)
  finally have e1: "652 / 100 + log 10 (A / C) = ph + (log 10 A - log 10 Hc)" by simp
  have "log 10 A - log 10 Hc = log 10 (A / Hc)"
    using A Hc by (simp add: log_divide)
  also have "A / Hc = (1 + r) / r"
    using A r by (simp add: Hc_def field_simps)
  also have "(1 + r) / r = 1 + 1 / r"
    using r by (simp add: field_simps)
  also have "1 / r = 10 powr (ph - 103 / 10)"
  proof -
    have "1 / r = 10 powr (- (103 / 10 - ph))"
      unfolding r_def by (simp only: powr_minus_divide)
    then show ?thesis by simp
  qed
  finally have e2: "log 10 A - log 10 Hc = log 10 (1 + 10 powr (ph - 103 / 10))" .
  have p10: "0 < (10::real) powr (ph - 103 / 10)"
    by simp
  then have "1 < 1 + (10::real) powr (ph - 103 / 10)"
    by linarith
  then have pos: "0 < log 10 (1 + 10 powr (ph - 103 / 10))"
    by (rule log10_pos)
  have e3: "652 / 100 + log 10 (A / C) = ph + log 10 (1 + 10 powr (ph - 103 / 10))"
    using e1 e2 by (simp only:)
  show ?thesis
  proof (intro exI conjI)
    show "pH_to_CO2 (Fin ph) (Fin kh) = Inr (Fin (C * 44 * 1000))" by (rule fwd)
    show "CO2_to_pH (Fin (C * 44 * 1000)) (Fin kh) = Inr (Fin (652 / 100 + log 10 (A / C)))"
      by (rule inverse_dir)
    show "652 / 100 + log 10 (A / C) = ph + log 10 (1 + 10 powr (ph - 103 / 10))" by (rule e3)
    show "ph < 652 / 100 + log 10 (A / C)" unfolding e3 using pos by linarith
  qed
qed

theorem pH_round_trip_not_exact_witness:
  "\<exists>co2 ph2. pH_to_CO2 (Fin 7) (Fin 4) = Inr (Fin co2) \<and>
     CO2_to_pH (Fin co2) (Fin 4) = Inr (Fin ph2) \<and>
     ph2 = 7 + log 10 (1 + 10 powr (7 - 103 / 10)) \<and> 7 < ph2"
  using pH_round_trip_not_exact[of 4 7] by simp

end
